theory Spec2Isabelle
  imports Main
begin

section \<open>The command-error handler of bot/cogs/error\_handler.py\<close>

text \<open>
  \<open>ErrorHandler.on_command_error(ctx, e)\<close> is embedded as a pure function. What the
  coroutine does to the outside (a chat message through \<open>ctx.send\<close>, a line through
  \<open>log\<close>, a command run through \<open>ctx.invoke\<close>) is recorded as a list of events in
  program order; the attribute it sets on the context is returned as the updated context;
  how it ends (a normal return or a raised exception) is the outcome.

  \<open>ctx.send\<close>, the logger and \<open>response.json()\<close> are taken to return. A command run
  through \<open>ctx.invoke\<close> may return or raise, as the handler itself provides for with
  \<open>contextlib.suppress\<close>; what it does is a parameter of the model.
\<close>

subsection \<open>Data\<close>

text \<open>
  A command object: the handler reads \<open>command.name\<close>, \<open>command.parent\<close>,
  \<open>hasattr(command, "on_error")\<close> and \<open>str(command)\<close> (inside the log lines).
\<close>

datatype command =
  Command (name: string) (parent: "command option") (has_on_error: bool) (command_str: string)

text \<open>
  The response carried by a \<open>ResponseCodeError\<close> (\<open>bot.api\<close>): the handler reads its
  attributes \<open>status\<close> (lines 74 to 80) and \<open>code\<close> (line 85) and awaits \<open>json()\<close>
  (line 77). The record has one field for each of the three; \<open>json_repr\<close> is the \<open>%r\<close>
  rendering of the decoded body.
\<close>

record response =
  status :: int
  code :: int
  json_repr :: string

text \<open>
  Exceptions. The constructors are the classes of \<open>discord.ext.commands\<close> that the handler
  imports, the library's further subclasses of \<open>UserInputError\<close> and \<open>CheckFailure\<close>
  that reach the handler as instances of those, \<open>ResponseCodeError\<close> of \<open>bot.api\<close>, and
  \<open>OtherException\<close> for any exception outside these. \<open>CommandError\<close> is the base class
  itself. \<open>exc_str\<close> is \<open>str(e)\<close>.
\<close>

datatype exc =
    CommandError (exc_str: string)
  | UserInputError (exc_str: string)
  | MissingRequiredArgument (exc_str: string)
  | TooManyArguments (exc_str: string)
  | BadArgument (exc_str: string)
  | CommandNotFound (exc_str: string)
  | CheckFailure (exc_str: string)
  | NoPrivateMessage (exc_str: string)
  | NotOwner (exc_str: string)
  | BotMissingPermissions (exc_str: string) (missing_perms: "string list")
  | MissingPermissions (exc_str: string) (missing_perms: "string list")
  | CommandOnCooldown (exc_str: string)
  | DisabledCommand (exc_str: string)
  | CommandInvokeError (exc_str: string) (original: exc)
  | ResponseCodeError (exc_str: string) (response: response)
  | OtherException (exc_str: string)

text \<open>The classes named in the \<open>isinstance\<close> tests of the handler.\<close>

datatype exc_class =
    CommandError_cls
  | UserInputError_cls
  | MissingRequiredArgument_cls
  | TooManyArguments_cls
  | BadArgument_cls
  | CommandNotFound_cls
  | CheckFailure_cls
  | NoPrivateMessage_cls
  | NotOwner_cls
  | BotMissingPermissions_cls
  | MissingPermissions_cls
  | CommandOnCooldown_cls
  | DisabledCommand_cls
  | CommandInvokeError_cls
  | ResponseCodeError_cls
  | OtherException_cls

fun class_of :: "exc \<Rightarrow> exc_class" where
  "class_of (CommandError _) = CommandError_cls"
| "class_of (UserInputError _) = UserInputError_cls"
| "class_of (MissingRequiredArgument _) = MissingRequiredArgument_cls"
| "class_of (TooManyArguments _) = TooManyArguments_cls"
| "class_of (BadArgument _) = BadArgument_cls"
| "class_of (CommandNotFound _) = CommandNotFound_cls"
| "class_of (CheckFailure _) = CheckFailure_cls"
| "class_of (NoPrivateMessage _) = NoPrivateMessage_cls"
| "class_of (NotOwner _) = NotOwner_cls"
| "class_of (BotMissingPermissions _ _) = BotMissingPermissions_cls"
| "class_of (MissingPermissions _ _) = MissingPermissions_cls"
| "class_of (CommandOnCooldown _) = CommandOnCooldown_cls"
| "class_of (DisabledCommand _) = DisabledCommand_cls"
| "class_of (CommandInvokeError _ _) = CommandInvokeError_cls"
| "class_of (ResponseCodeError _ _) = ResponseCodeError_cls"
| "class_of (OtherException _) = OtherException_cls"

text \<open>
  The class and its base classes among the modelled ones, most specific first, as
  \<open>discord.ext.commands.errors\<close> declares them: \<open>BadArgument\<close>, \<open>MissingRequiredArgument\<close>
  and \<open>TooManyArguments\<close> derive from \<open>UserInputError\<close>; \<open>NoPrivateMessage\<close>,
  \<open>NotOwner\<close>, \<open>MissingPermissions\<close> and \<open>BotMissingPermissions\<close> derive from
  \<open>CheckFailure\<close>; every command error derives from \<open>CommandError\<close>.
\<close>

fun mro :: "exc_class \<Rightarrow> exc_class list" where
  "mro CommandError_cls = [CommandError_cls]"
| "mro UserInputError_cls = [UserInputError_cls, CommandError_cls]"
| "mro MissingRequiredArgument_cls =
     [MissingRequiredArgument_cls, UserInputError_cls, CommandError_cls]"
| "mro TooManyArguments_cls = [TooManyArguments_cls, UserInputError_cls, CommandError_cls]"
| "mro BadArgument_cls = [BadArgument_cls, UserInputError_cls, CommandError_cls]"
| "mro CommandNotFound_cls = [CommandNotFound_cls, CommandError_cls]"
| "mro CheckFailure_cls = [CheckFailure_cls, CommandError_cls]"
| "mro NoPrivateMessage_cls = [NoPrivateMessage_cls, CheckFailure_cls, CommandError_cls]"
| "mro NotOwner_cls = [NotOwner_cls, CheckFailure_cls, CommandError_cls]"
| "mro BotMissingPermissions_cls =
     [BotMissingPermissions_cls, CheckFailure_cls, CommandError_cls]"
| "mro MissingPermissions_cls = [MissingPermissions_cls, CheckFailure_cls, CommandError_cls]"
| "mro CommandOnCooldown_cls = [CommandOnCooldown_cls, CommandError_cls]"
| "mro DisabledCommand_cls = [DisabledCommand_cls, CommandError_cls]"
| "mro CommandInvokeError_cls = [CommandInvokeError_cls, CommandError_cls]"
| "mro ResponseCodeError_cls = [ResponseCodeError_cls]"
| "mro OtherException_cls = [OtherException_cls]"

definition isinstance :: "exc \<Rightarrow> exc_class \<Rightarrow> bool" where
  "isinstance e k = (k \<in> set (mro (class_of e)))"

text \<open>
  \<open>e.__class__.__name__\<close>, read by the log line of line 71, which only instances of
  \<open>CheckFailure\<close>, \<open>CommandOnCooldown\<close> and \<open>DisabledCommand\<close> reach.
\<close>

fun class_name :: "exc \<Rightarrow> string" where
  "class_name (CommandError _) = ''CommandError''"
| "class_name (UserInputError _) = ''UserInputError''"
| "class_name (MissingRequiredArgument _) = ''MissingRequiredArgument''"
| "class_name (TooManyArguments _) = ''TooManyArguments''"
| "class_name (BadArgument _) = ''BadArgument''"
| "class_name (CommandNotFound _) = ''CommandNotFound''"
| "class_name (CheckFailure _) = ''CheckFailure''"
| "class_name (NoPrivateMessage _) = ''NoPrivateMessage''"
| "class_name (NotOwner _) = ''NotOwner''"
| "class_name (BotMissingPermissions _ _) = ''BotMissingPermissions''"
| "class_name (MissingPermissions _ _) = ''MissingPermissions''"
| "class_name (CommandOnCooldown _) = ''CommandOnCooldown''"
| "class_name (DisabledCommand _) = ''DisabledCommand''"
| "class_name (CommandInvokeError _ _) = ''CommandInvokeError''"
| "class_name (ResponseCodeError _ _) = ''ResponseCodeError''"
| "class_name (OtherException _) = ''Exception''"

text \<open>What an invoked command's callback returns: \<open>None\<close> or some other object.\<close>

datatype pyval = PyNone | PyObj string

text \<open>
  The invocation context. \<open>invoked_from_error_handler\<close> is \<open>None\<close> while the object has
  no attribute of that name (\<open>hasattr\<close> is false) and \<open>Some v\<close> once it is set to \<open>v\<close>.
  \<open>author_str\<close> is \<open>str(ctx.message.author)\<close>.
\<close>

record ctx =
  command :: "command option"
  channel_id :: int
  invoked_with :: string
  author_str :: string
  invoked_from_error_handler :: "bool option"

text \<open>
  What the handler takes from its surroundings: the bot's command registry
  (\<open>self.bot.get_command\<close>), the constant \<open>Channels.verification\<close> of \<open>bot.constants\<close>,
  and how a command run through \<open>ctx.invoke\<close> ends, given the context as it is at the call,
  the command, the positional and the keyword arguments: \<open>Inl x\<close> when it raises \<open>x\<close>,
  \<open>Inr v\<close> when it returns \<open>v\<close>.
\<close>

record env =
  get_command :: "string \<Rightarrow> command option"
  verification :: int
  invoke :: "ctx \<Rightarrow> command option \<Rightarrow> string list \<Rightarrow> (string \<times> string) list \<Rightarrow> exc + pyval"

datatype level = Debug | Warning

datatype event =
    Send string
  | Log level string
  | Invoke "command option" "string list" "(string \<times> string) list"

datatype outcome = Returned pyval | Raised exc

subsection \<open>Rendering values into messages\<close>

text \<open>\<open>str\<close> of a Python integer: decimal digits, with a minus sign below zero.\<close>

definition digit_chr :: "nat \<Rightarrow> char" where
  "digit_chr d = ''0123456789'' ! d"

fun str_nat :: "nat \<Rightarrow> string" where
  "str_nat n =
     (if n < 10 then [digit_chr n] else str_nat (n div 10) @ [digit_chr (n mod 10)])"

definition str_int :: "int \<Rightarrow> string" where
  "str_int i = (if i < 0 then ''-'' @ str_nat (nat (- i)) else str_nat (nat i))"

text \<open>
  \<open>str\<close> of a list of strings, as an f-string renders \<open>e.missing_perms\<close>: each element in
  single quotes, separated by a comma and a space, in square brackets. Permission names are
  lower-case identifiers, so no character of an element is escaped.
\<close>

fun join_reprs :: "string list \<Rightarrow> string" where
  "join_reprs [] = []"
| "join_reprs [x] = [CHR 0x27] @ x @ [CHR 0x27]"
| "join_reprs (x # y # ys) = [CHR 0x27] @ x @ [CHR 0x27] @ '', '' @ join_reprs (y # ys)"

definition str_list :: "string list \<Rightarrow> string" where
  "str_list xs = ''['' @ join_reprs xs @ '']''"

text \<open>\<open>str(command)\<close> where \<open>command\<close> may be \<open>None\<close>.\<close>

definition str_command :: "command option \<Rightarrow> string" where
  "str_command c = (case c of None \<Rightarrow> ''None'' | Some k \<Rightarrow> command_str k)"

subsection \<open>The handler\<close>

text \<open>
  Lines 32 to 43: the argument tuple later passed as \<open>ctx.invoke(*help_command)\<close>, as the
  command to invoke and its positional arguments.
\<close>

definition help_command :: "env \<Rightarrow> ctx \<Rightarrow> command option \<times> string list" where
  "help_command en cx =
     (let cmd = command cx;
          par = (case cmd of None \<Rightarrow> None | Some c \<Rightarrow> parent c)
      in case (par, cmd) of
           (Some p, Some c) \<Rightarrow> (get_command en ''help'', [name p, name c])
         | (None, Some c) \<Rightarrow> (get_command en ''help'', [name c])
         | (_, None) \<Rightarrow> (get_command en ''help'', []))"

text \<open>\<open>hasattr(command, "on_error")\<close>; \<open>None\<close> has no such attribute.\<close>

definition hasattr_on_error :: "command option \<Rightarrow> bool" where
  "hasattr_on_error c = (case c of None \<Rightarrow> False | Some k \<Rightarrow> has_on_error k)"

text \<open>
  \<open>await ctx.invoke(*help_command)\<close> as the last statement of a branch, after the events
  \<open>evs\<close>: an exception of the invoked command leaves the handler, its value is dropped.
\<close>

definition invoke_help :: "env \<Rightarrow> ctx \<Rightarrow> event list \<Rightarrow> ctx \<times> event list \<times> outcome" where
  "invoke_help en cx evs =
     (let hc = help_command en cx;
          evs' = evs @ [Invoke (fst hc) (snd hc) []]
      in case invoke en cx (fst hc) (snd hc) [] of
           Inl x \<Rightarrow> (cx, evs', Raised x)
         | Inr v \<Rightarrow> (cx, evs', Returned PyNone))"

text \<open>
  Lines 51 to 56: the tag lookup. The attribute is set before the command runs;
  \<open>contextlib.suppress(ResponseCodeError)\<close> swallows an instance of that class, after which
  the function falls off its end and returns \<open>None\<close>; any other exception leaves the handler;
  a value returned is returned by the handler.
\<close>

definition invoke_tags_get :: "env \<Rightarrow> ctx \<Rightarrow> ctx \<times> event list \<times> outcome" where
  "invoke_tags_get en cx =
     (let tags_get_command = get_command en ''tags get'';
          cx' = cx\<lparr>invoked_from_error_handler := Some True\<rparr>;
          kwargs = [(''tag_name'', invoked_with cx')];
          evs = [Invoke tags_get_command [] kwargs]
      in case invoke en cx' tags_get_command [] kwargs of
           Inr v \<Rightarrow> (cx', evs, Returned v)
         | Inl x \<Rightarrow>
             (if isinstance x ResponseCodeError_cls then (cx', evs, Returned PyNone)
              else (cx', evs, Raised x)))"

text \<open>Lines 73 to 91: the branch of \<open>CommandInvokeError\<close>, on \<open>e.original\<close>.\<close>

definition on_invoke_error :: "ctx \<Rightarrow> exc \<Rightarrow> ctx \<times> event list \<times> outcome" where
  "on_invoke_error cx e =
     (if isinstance (original e) ResponseCodeError_cls then
        (if status (response (original e)) = 404 then
           (cx, [Send ''There does not seem to be anything matching your query.''],
            Returned PyNone)
         else if status (response (original e)) = 400 then
           (cx, [Log Debug (''API gave bad request on command. Response: ''
                   @ json_repr (response (original e)) @ ''.''),
                 Send ''According to the API, your request is malformed.''],
            Returned PyNone)
         else if 500 \<le> status (response (original e)) \<and> status (response (original e)) < 600
         then
           (cx, [Send ''Sorry, there seems to be an internal issue with the API.''],
            Returned PyNone)
         else
           (cx, [Send (''Got an unexpected status code from the API (`''
                   @ str_int (code (response (original e))) @ ''`).'')],
            Returned PyNone))
      else
        (cx, [Send (''Sorry, an unexpected error occurred. Please let us know!''
                @ [CHR 0x0A, CHR 0x0A] @ ''```'' @ exc_str e @ ''```'')],
         Raised (original e)))"

text \<open>Lines 31 to 93.\<close>

definition on_command_error :: "env \<Rightarrow> ctx \<Rightarrow> exc \<Rightarrow> ctx \<times> event list \<times> outcome" where
  "on_command_error en cx e =
     (if hasattr_on_error (command cx) then
        (cx, [Log Debug (''Command '' @ str_command (command cx)
                @ '' has a local error handler, ignoring.'')],
         Returned PyNone)
      else if isinstance e CommandNotFound_cls \<and> invoked_from_error_handler cx = None then
        (if \<not> channel_id cx = verification en then invoke_tags_get en cx
         else (cx, [], Returned PyNone))
      else if isinstance e BadArgument_cls then
        invoke_help en cx [Send (''Bad argument: '' @ exc_str e @ [CHR 0x0A])]
      else if isinstance e UserInputError_cls then
        invoke_help en cx
          [Send ''Something about your input seems off. Check the arguments:'']
      else if isinstance e NoPrivateMessage_cls then
        (cx, [Send (''Sorry, this command can'' @ [CHR 0x27]
                @ ''t be used in a private message!'')],
         Returned PyNone)
      else if isinstance e BotMissingPermissions_cls then
        (cx, [Send (''Sorry, it looks like I don'' @ [CHR 0x27]
                @ ''t have the permissions I need to do that.''),
              Log Warning (''The bot is missing permissions to execute command ''
                @ str_command (command cx) @ '': '' @ str_list (missing_perms e))],
         Returned PyNone)
      else if isinstance e MissingPermissions_cls then
        (cx, [Log Debug (author_str cx @ '' is missing permissions to invoke command ''
                @ str_command (command cx) @ '': '' @ str_list (missing_perms e))],
         Returned PyNone)
      else if isinstance e CheckFailure_cls \<or> isinstance e CommandOnCooldown_cls
              \<or> isinstance e DisabledCommand_cls then
        (cx, [Log Debug (''Command '' @ str_command (command cx) @ '' invoked by ''
                @ author_str cx @ '' with error '' @ class_name e @ '': '' @ exc_str e)],
         Returned PyNone)
      else if isinstance e CommandInvokeError_cls then on_invoke_error cx e
      else (cx, [], Raised e))"

text \<open>What one run did, read off its result.\<close>

definition ctx_after :: "ctx \<times> event list \<times> outcome \<Rightarrow> ctx" where
  "ctx_after r = fst r"

definition events :: "ctx \<times> event list \<times> outcome \<Rightarrow> event list" where
  "events r = fst (snd r)"

definition result :: "ctx \<times> event list \<times> outcome \<Rightarrow> outcome" where
  "result r = snd (snd r)"

fun is_send :: "event \<Rightarrow> bool" where
  "is_send (Send _) = True"
| "is_send _ = False"

fun is_log :: "event \<Rightarrow> bool" where
  "is_log (Log _ _) = True"
| "is_log _ = False"

fun is_invoke :: "event \<Rightarrow> bool" where
  "is_invoke (Invoke _ _ _) = True"
| "is_invoke _ = False"

fun raises :: "outcome \<Rightarrow> nat" where
  "raises (Raised _) = 1"
| "raises (Returned _) = 0"

subsection \<open>The classes tested by the handler, and concrete inputs\<close>

text \<open>
  The classes that the \<open>if\<close>/\<open>elif\<close> chain of the handler tests with \<open>isinstance\<close>, in
  the order of the chain (lines 49 to 72).
\<close>

definition dispatch_classes :: "exc_class list" where
  "dispatch_classes =
     [CommandNotFound_cls, BadArgument_cls, UserInputError_cls, NoPrivateMessage_cls,
      BotMissingPermissions_cls, MissingPermissions_cls, CheckFailure_cls,
      CommandOnCooldown_cls, DisabledCommand_cls, CommandInvokeError_cls]"

text \<open>
  Concrete commands, registries and contexts on which the theorems below are evaluated: a
  \<open>help\<close> command, the group \<open>tags\<close> with its subcommand \<open>get\<close>, a command \<open>ban\<close>
  without an error handler of its own and a command \<open>eval\<close> that has one; a bot whose
  invoked commands return \<open>None\<close> and one whose invoked commands raise a
  \<open>ResponseCodeError\<close>; a context without the attribute \<open>invoked_from_error_handler\<close>.
\<close>

definition help_cmd :: command where
  "help_cmd = Command ''help'' None False ''help''"

definition tags_cmd :: command where
  "tags_cmd = Command ''tags'' None False ''tags''"

definition tags_get_cmd :: command where
  "tags_get_cmd = Command ''get'' (Some tags_cmd) False ''tags get''"

definition ban_cmd :: command where
  "ban_cmd = Command ''ban'' None False ''ban''"

definition eval_cmd :: command where
  "eval_cmd = Command ''eval'' None True ''eval''"

definition registry :: "string \<Rightarrow> command option" where
  "registry s =
     (if s = ''help'' then Some help_cmd
      else if s = ''tags get'' then Some tags_get_cmd
      else None)"

definition quiet_env :: env where
  "quiet_env = \<lparr>get_command = registry, verification = 352442727016693763,
                 invoke = (\<lambda>_ _ _ _. Inr PyNone)\<rparr>"

definition not_found_response :: response where
  "not_found_response = \<lparr>status = 404, code = 404, json_repr = ''{}''\<rparr>"

definition failing_env :: env where
  "failing_env = \<lparr>get_command = registry, verification = 352442727016693763,
                   invoke = (\<lambda>_ _ _ _. Inl (ResponseCodeError ''404'' not_found_response))\<rparr>"

definition ctx_in :: "command option \<Rightarrow> int \<Rightarrow> ctx" where
  "ctx_in c ch = \<lparr>command = c, channel_id = ch, invoked_with = ''rules'',
                   author_str = ''lemon#0001'', invoked_from_error_handler = None\<rparr>"

section \<open>Auxiliary facts\<close>

lemma raises_le_one: "raises x \<le> 1"
  by (cases x) simp_all

lemma events_tuple: "events (c, evs, r) = evs"
  by (simp add: events_def)

lemma result_tuple: "result (c, evs, r) = r"
  by (simp add: result_def)

lemma ctx_after_tuple: "ctx_after (c, evs, r) = c"
  by (simp add: ctx_after_def)

lemma events_invoke_help:
  "events (invoke_help en cx evs) =
     evs @ [Invoke (fst (help_command en cx)) (snd (help_command en cx)) []]"
  by (simp add: invoke_help_def events_def Let_def split: sum.split)

lemma ctx_after_invoke_help: "ctx_after (invoke_help en cx evs) = cx"
  by (simp add: invoke_help_def ctx_after_def Let_def split: sum.split)

lemma result_invoke_help:
  "result (invoke_help en cx evs) =
     (case invoke en cx (fst (help_command en cx)) (snd (help_command en cx)) [] of
        Inl x \<Rightarrow> Raised x | Inr v \<Rightarrow> Returned PyNone)"
  by (simp add: invoke_help_def result_def Let_def split: sum.split)

lemma events_invoke_tags_get:
  "events (invoke_tags_get en cx) =
     [Invoke (get_command en ''tags get'') [] [(''tag_name'', invoked_with cx)]]"
  by (simp add: invoke_tags_get_def events_def Let_def split: sum.split)

lemma ctx_after_invoke_tags_get:
  "ctx_after (invoke_tags_get en cx) = cx\<lparr>invoked_from_error_handler := Some True\<rparr>"
  by (simp add: invoke_tags_get_def ctx_after_def Let_def split: sum.split)

lemma result_invoke_tags_get:
  "result (invoke_tags_get en cx) =
     (case invoke en (cx\<lparr>invoked_from_error_handler := Some True\<rparr>)
             (get_command en ''tags get'') [] [(''tag_name'', invoked_with cx)] of
        Inr v \<Rightarrow> Returned v
      | Inl x \<Rightarrow> if isinstance x ResponseCodeError_cls then Returned PyNone else Raised x)"
  by (simp add: invoke_tags_get_def result_def Let_def split: sum.split)

lemma help_command_fst: "fst (help_command en cx) = get_command en ''help''"
  by (simp add: help_command_def Let_def split: option.split)

lemma help_command_snd:
  "snd (help_command en cx) =
     (case command cx of
        None \<Rightarrow> []
      | Some c \<Rightarrow> (case parent c of None \<Rightarrow> [name c] | Some p \<Rightarrow> [name p, name c]))"
  by (simp add: help_command_def Let_def split: option.split)

lemma local_handler:
  "hasattr_on_error (command cx) \<Longrightarrow>
   on_command_error en cx e =
     (cx, [Log Debug (''Command '' @ str_command (command cx)
             @ '' has a local error handler, ignoring.'')], Returned PyNone)"
  by (simp add: on_command_error_def)

lemma events_send_count:
  "length (filter is_send (events (on_command_error en cx e))) \<le> 1"
  by (simp add: on_command_error_def on_invoke_error_def events_tuple events_invoke_help
      events_invoke_tags_get)

lemma events_log_count:
  "length (filter is_log (events (on_command_error en cx e))) \<le> 1"
  by (simp add: on_command_error_def on_invoke_error_def events_tuple events_invoke_help
      events_invoke_tags_get)

lemma events_invoke_count:
  "length (filter is_invoke (events (on_command_error en cx e))) \<le> 1"
  by (simp add: on_command_error_def on_invoke_error_def events_tuple events_invoke_help
      events_invoke_tags_get)


lemma isinstance_ResponseCodeError:
  "isinstance x ResponseCodeError_cls = (class_of x = ResponseCodeError_cls)"
  by (cases x) (simp_all add: isinstance_def)

lemma tag_lookup_branch:
  "\<not> hasattr_on_error (command cx) \<Longrightarrow> class_of e = CommandNotFound_cls \<Longrightarrow>
   invoked_from_error_handler cx = None \<Longrightarrow> channel_id cx \<noteq> verification en \<Longrightarrow>
   on_command_error en cx e = invoke_tags_get en cx"
  by (simp add: on_command_error_def isinstance_def)

lemma verification_branch:
  "\<not> hasattr_on_error (command cx) \<Longrightarrow> class_of e = CommandNotFound_cls \<Longrightarrow>
   invoked_from_error_handler cx = None \<Longrightarrow> channel_id cx = verification en \<Longrightarrow>
   on_command_error en cx e = (cx, [], Returned PyNone)"
  by (simp add: on_command_error_def isinstance_def)

lemma bad_argument_branch:
  "\<not> hasattr_on_error (command cx) \<Longrightarrow> class_of e = BadArgument_cls \<Longrightarrow>
   on_command_error en cx e =
     invoke_help en cx [Send (''Bad argument: '' @ exc_str e @ [CHR 0x0A])]"
  by (simp add: on_command_error_def isinstance_def)

lemma bot_missing_permissions_branch:
  "\<not> hasattr_on_error (command cx) \<Longrightarrow> class_of e = BotMissingPermissions_cls \<Longrightarrow>
   on_command_error en cx e =
     (cx, [Send (''Sorry, it looks like I don'' @ [CHR 0x27]
             @ ''t have the permissions I need to do that.''),
           Log Warning (''The bot is missing permissions to execute command ''
             @ str_command (command cx) @ '': '' @ str_list (missing_perms e))],
      Returned PyNone)"
  by (simp add: on_command_error_def isinstance_def)

lemma missing_permissions_branch:
  "\<not> hasattr_on_error (command cx) \<Longrightarrow> class_of e = MissingPermissions_cls \<Longrightarrow>
   on_command_error en cx e =
     (cx, [Log Debug (author_str cx @ '' is missing permissions to invoke command ''
             @ str_command (command cx) @ '': '' @ str_list (missing_perms e))],
      Returned PyNone)"
  by (simp add: on_command_error_def isinstance_def)

lemma isinstance_MissingPermissions:
  "isinstance x MissingPermissions_cls = (class_of x = MissingPermissions_cls)"
  by (cases x) (simp_all add: isinstance_def)

lemma check_failure_instance_branch:
  assumes "\<not> hasattr_on_error (command cx)"
    and "isinstance e CheckFailure_cls \<or> isinstance e CommandOnCooldown_cls
           \<or> isinstance e DisabledCommand_cls"
    and "\<not> isinstance e NoPrivateMessage_cls"
    and "\<not> isinstance e BotMissingPermissions_cls"
    and "\<not> isinstance e MissingPermissions_cls"
  shows "on_command_error en cx e =
     (cx, [Log Debug (''Command '' @ str_command (command cx) @ '' invoked by ''
             @ author_str cx @ '' with error '' @ class_name e @ '': '' @ exc_str e)],
      Returned PyNone)"
proof -
  have a: "\<not> isinstance e CommandNotFound_cls" "\<not> isinstance e BadArgument_cls"
    "\<not> isinstance e UserInputError_cls"
    using assms(2) by (cases e; simp add: isinstance_def)+
  show ?thesis
    using assms a by (simp add: on_command_error_def)
qed

lemma invoke_error_branch:
  "\<not> hasattr_on_error (command cx) \<Longrightarrow> class_of e = CommandInvokeError_cls \<Longrightarrow>
   on_command_error en cx e = on_invoke_error cx e"
  by (simp add: on_command_error_def isinstance_def)

lemma unmatched_branch:
  "\<not> hasattr_on_error (command cx) \<Longrightarrow> \<forall>k \<in> set dispatch_classes. \<not> isinstance e k \<Longrightarrow>
   on_command_error en cx e = (cx, [], Raised e)"
  by (simp add: on_command_error_def dispatch_classes_def)

lemma eval_has_handler: "hasattr_on_error (command (ctx_in (Some eval_cmd) ch))"
  by (simp add: hasattr_on_error_def ctx_in_def eval_cmd_def)

lemma eval_str: "str_command (command (ctx_in (Some eval_cmd) ch)) = ''eval''"
  by (simp add: str_command_def ctx_in_def eval_cmd_def)

lemma ban_no_handler: "\<not> hasattr_on_error (command (ctx_in (Some ban_cmd) ch))"
  by (simp add: hasattr_on_error_def ctx_in_def ban_cmd_def)

lemma ban_str: "str_command (command (ctx_in (Some ban_cmd) ch)) = ''ban''"
  by (simp add: str_command_def ctx_in_def ban_cmd_def)

lemma tags_get_no_handler: "\<not> hasattr_on_error (command (ctx_in (Some tags_get_cmd) ch))"
  by (simp add: hasattr_on_error_def ctx_in_def tags_get_cmd_def)

lemma none_no_handler: "\<not> hasattr_on_error (command (ctx_in None ch))"
  by (simp add: hasattr_on_error_def ctx_in_def)

lemma ctx_in_unmarked: "invoked_from_error_handler (ctx_in c ch) = None"
  by (simp add: ctx_in_def)

lemma ctx_in_channel: "channel_id (ctx_in c ch) = ch"
  by (simp add: ctx_in_def)

lemma ctx_in_invoked_with: "invoked_with (ctx_in c ch) = ''rules''"
  by (simp add: ctx_in_def)

lemma ctx_in_author: "author_str (ctx_in c ch) = ''lemon#0001''"
  by (simp add: ctx_in_def)

lemma ctx_in_command: "command (ctx_in c ch) = c"
  by (simp add: ctx_in_def)

lemma quiet_env_simps:
  "get_command quiet_env ''help'' = Some help_cmd"
  "get_command quiet_env ''tags get'' = Some tags_get_cmd"
  "verification quiet_env = 352442727016693763"
  "invoke quiet_env c k a kw = Inr PyNone"
  by (simp_all add: quiet_env_def registry_def)

lemma failing_env_simps:
  "get_command failing_env ''help'' = Some help_cmd"
  "get_command failing_env ''tags get'' = Some tags_get_cmd"
  "verification failing_env = 352442727016693763"
  "invoke failing_env c k a kw = Inl (ResponseCodeError ''404'' not_found_response)"
  by (simp_all add: failing_env_def registry_def)

section \<open>The claims\<close>

text \<open>
  Claim C1. For an error of class \<open>CommandNotFound\<close> on a context that has no attribute
  \<open>invoked_from_error_handler\<close> and whose channel is not the verification channel, the
  handler sets the attribute to \<open>True\<close>, invokes the command registered as \<open>tags get\<close>
  with the keyword argument \<open>tag_name = ctx.invoked_with\<close> (the invoked command already
  sees the attribute), and a \<open>ResponseCodeError\<close> raised by that invocation is suppressed:
  the handler returns \<open>None\<close>. This holds when the command of the context has no
  \<open>on_error\<close> attribute; line 45 returns before the dispatch otherwise. Any other
  exception of the invocation leaves the handler, and a returned value is returned.
\<close>

theorem C1_tag_lookup:
  assumes "\<not> hasattr_on_error (command cx)"
    and "class_of e = CommandNotFound_cls"
    and "invoked_from_error_handler cx = None"
    and "channel_id cx \<noteq> verification en"
  shows "ctx_after (on_command_error en cx e) = cx\<lparr>invoked_from_error_handler := Some True\<rparr>
       \<and> events (on_command_error en cx e) =
           [Invoke (get_command en ''tags get'') [] [(''tag_name'', invoked_with cx)]]
       \<and> result (on_command_error en cx e) =
           (case invoke en (cx\<lparr>invoked_from_error_handler := Some True\<rparr>)
                   (get_command en ''tags get'') [] [(''tag_name'', invoked_with cx)] of
              Inr v \<Rightarrow> Returned v
            | Inl x \<Rightarrow> if isinstance x ResponseCodeError_cls then Returned PyNone
                       else Raised x)"
  using assms
  by (simp add: tag_lookup_branch ctx_after_invoke_tags_get events_invoke_tags_get
      result_invoke_tags_get)

text \<open>
  The statement of C1 at a context without a command, in a channel other than the
  verification channel, with a bot whose tag lookup raises a \<open>ResponseCodeError\<close>.
\<close>

theorem C1_tag_lookup_witness:
  "\<not> hasattr_on_error (command (ctx_in None 267624335836053506))
   \<and> class_of (CommandNotFound ''rules'') = CommandNotFound_cls
   \<and> invoked_from_error_handler (ctx_in None 267624335836053506) = None
   \<and> channel_id (ctx_in None 267624335836053506) \<noteq> verification failing_env
   \<and> ctx_after (on_command_error failing_env (ctx_in None 267624335836053506)
        (CommandNotFound ''rules''))
       = (ctx_in None 267624335836053506)\<lparr>invoked_from_error_handler := Some True\<rparr>
   \<and> events (on_command_error failing_env (ctx_in None 267624335836053506)
        (CommandNotFound ''rules''))
       = [Invoke (Some tags_get_cmd) [] [(''tag_name'', ''rules'')]]
   \<and> result (on_command_error failing_env (ctx_in None 267624335836053506)
        (CommandNotFound ''rules'')) = Returned PyNone"
proof -
  have h1: "\<not> hasattr_on_error (command (ctx_in None 267624335836053506))"
    by (rule none_no_handler)
  have h2: "class_of (CommandNotFound ''rules'') = CommandNotFound_cls"
    by simp
  have h3: "invoked_from_error_handler (ctx_in None 267624335836053506) = None"
    by (rule ctx_in_unmarked)
  have h4: "channel_id (ctx_in None 267624335836053506) \<noteq> verification failing_env"
    by (simp add: ctx_in_channel failing_env_simps)
  have c: "isinstance (ResponseCodeError ''404'' not_found_response) ResponseCodeError_cls"
    by (simp add: isinstance_def)
  show ?thesis
    using h1 h2 h3 h4 C1_tag_lookup [OF h1 h2 h3 h4]
    by (simp add: failing_env_simps ctx_in_invoked_with c)
qed

text \<open>
  C1 without the condition on \<open>on_error\<close> fails: with the command \<open>eval\<close>, which has a
  handler of its own, the context stays unmarked and nothing is invoked.
\<close>

theorem C1_counterexample:
  "class_of (CommandNotFound ''rules'') = CommandNotFound_cls
   \<and> invoked_from_error_handler (ctx_in (Some eval_cmd) 267624335836053506) = None
   \<and> channel_id (ctx_in (Some eval_cmd) 267624335836053506) \<noteq> verification quiet_env
   \<and> invoked_from_error_handler
        (ctx_after (on_command_error quiet_env (ctx_in (Some eval_cmd) 267624335836053506)
           (CommandNotFound ''rules''))) = None
   \<and> events (on_command_error quiet_env (ctx_in (Some eval_cmd) 267624335836053506)
        (CommandNotFound ''rules''))
       = [Log Debug ''Command eval has a local error handler, ignoring.'']"
  by (simp add: local_handler [OF eval_has_handler] ctx_after_tuple events_tuple
      ctx_in_unmarked ctx_in_channel quiet_env_simps eval_str)


text \<open>
  Claim C2. For a \<open>CommandInvokeError\<close> whose \<open>original\<close> is a \<open>ResponseCodeError\<close>,
  on a command without an \<open>on_error\<close> attribute, the handler branches on
  \<open>response.status\<close>: 404 sends the message that nothing matches the query; 400 logs the
  decoded body at debug level and then sends the message that the request is malformed; a
  status from 500 up to but excluding 600 sends the message about an internal issue of the
  API; any other status sends a message that embeds \<open>response.code\<close>. The four messages
  are pairwise different, and in every branch the handler returns without raising.
\<close>

theorem C2_response_code_branches:
  assumes "\<not> hasattr_on_error (command cx)"
    and "class_of e = CommandInvokeError_cls"
    and "class_of (original e) = ResponseCodeError_cls"
  shows "result (on_command_error en cx e) = Returned PyNone
       \<and> (status (response (original e)) = 404 \<longrightarrow>
            events (on_command_error en cx e) =
              [Send ''There does not seem to be anything matching your query.''])
       \<and> (status (response (original e)) = 400 \<longrightarrow>
            events (on_command_error en cx e) =
              [Log Debug (''API gave bad request on command. Response: ''
                 @ json_repr (response (original e)) @ ''.''),
               Send ''According to the API, your request is malformed.''])
       \<and> (500 \<le> status (response (original e)) \<and> status (response (original e)) < 600 \<longrightarrow>
            events (on_command_error en cx e) =
              [Send ''Sorry, there seems to be an internal issue with the API.''])
       \<and> (status (response (original e)) \<noteq> 404 \<and> status (response (original e)) \<noteq> 400
            \<and> \<not> (500 \<le> status (response (original e))
                   \<and> status (response (original e)) < 600) \<longrightarrow>
            events (on_command_error en cx e) =
              [Send (''Got an unexpected status code from the API (`''
                 @ str_int (code (response (original e))) @ ''`).'')])
       \<and> distinct
            [''There does not seem to be anything matching your query.'',
             ''According to the API, your request is malformed.'',
             ''Sorry, there seems to be an internal issue with the API.'',
             ''Got an unexpected status code from the API (`''
               @ str_int (code (response (original e))) @ ''`).'']"
proof -
  have b: "on_command_error en cx e = on_invoke_error cx e"
    using assms(1,2) by (rule invoke_error_branch)
  have i: "isinstance (original e) ResponseCodeError_cls"
    using assms(3) by (simp add: isinstance_ResponseCodeError)
  have r: "result (on_invoke_error cx e) = Returned PyNone"
    using i by (simp add: on_invoke_error_def result_tuple)
  have e404: "status (response (original e)) = 404 \<Longrightarrow>
      events (on_invoke_error cx e) =
        [Send ''There does not seem to be anything matching your query.'']"
    using i by (simp add: on_invoke_error_def events_tuple)
  have e400: "status (response (original e)) = 400 \<Longrightarrow>
      events (on_invoke_error cx e) =
        [Log Debug (''API gave bad request on command. Response: ''
           @ json_repr (response (original e)) @ ''.''),
         Send ''According to the API, your request is malformed.'']"
    using i by (simp add: on_invoke_error_def events_tuple)
  have e5xx: "500 \<le> status (response (original e)) \<Longrightarrow>
      status (response (original e)) < 600 \<Longrightarrow>
      events (on_invoke_error cx e) =
        [Send ''Sorry, there seems to be an internal issue with the API.'']"
    using i by (simp add: on_invoke_error_def events_tuple)
  have eoth: "status (response (original e)) \<noteq> 404 \<Longrightarrow>
      status (response (original e)) \<noteq> 400 \<Longrightarrow>
      \<not> (500 \<le> status (response (original e)) \<and> status (response (original e)) < 600) \<Longrightarrow>
      events (on_invoke_error cx e) =
        [Send (''Got an unexpected status code from the API (`''
           @ str_int (code (response (original e))) @ ''`).'')]"
    using i by (simp add: on_invoke_error_def events_tuple)
  have d: "distinct
            [''There does not seem to be anything matching your query.'',
             ''According to the API, your request is malformed.'',
             ''Sorry, there seems to be an internal issue with the API.'',
             ''Got an unexpected status code from the API (`''
               @ str_int (code (response (original e))) @ ''`).'']"
    by simp
  show ?thesis
    unfolding b using r e404 e400 e5xx eoth d by blast
qed


text \<open>
  The statement of C2 at a response of status 400 with the body \<open>{}\<close>.
\<close>

theorem C2_response_code_branches_witness:
  "\<not> hasattr_on_error (command (ctx_in (Some ban_cmd) 267624335836053506))
   \<and> class_of (CommandInvokeError ''Command raised an exception''
         (ResponseCodeError ''400'' \<lparr>status = 400, code = 400, json_repr = ''{}''\<rparr>))
       = CommandInvokeError_cls
   \<and> class_of (original (CommandInvokeError ''Command raised an exception''
         (ResponseCodeError ''400'' \<lparr>status = 400, code = 400, json_repr = ''{}''\<rparr>)))
       = ResponseCodeError_cls
   \<and> status (response (original (CommandInvokeError ''Command raised an exception''
         (ResponseCodeError ''400'' \<lparr>status = 400, code = 400, json_repr = ''{}''\<rparr>)))) = 400
   \<and> result (on_command_error quiet_env (ctx_in (Some ban_cmd) 267624335836053506)
        (CommandInvokeError ''Command raised an exception''
          (ResponseCodeError ''400'' \<lparr>status = 400, code = 400, json_repr = ''{}''\<rparr>)))
       = Returned PyNone
   \<and> events (on_command_error quiet_env (ctx_in (Some ban_cmd) 267624335836053506)
        (CommandInvokeError ''Command raised an exception''
          (ResponseCodeError ''400'' \<lparr>status = 400, code = 400, json_repr = ''{}''\<rparr>)))
       = [Log Debug ''API gave bad request on command. Response: {}.'',
          Send ''According to the API, your request is malformed.'']"
proof -
  have h1: "\<not> hasattr_on_error (command (ctx_in (Some ban_cmd) 267624335836053506))"
    by (rule ban_no_handler)
  have h2: "class_of (CommandInvokeError ''Command raised an exception''
         (ResponseCodeError ''400'' \<lparr>status = 400, code = 400, json_repr = ''{}''\<rparr>))
       = CommandInvokeError_cls"
    by simp
  have h3: "class_of (original (CommandInvokeError ''Command raised an exception''
         (ResponseCodeError ''400'' \<lparr>status = 400, code = 400, json_repr = ''{}''\<rparr>)))
       = ResponseCodeError_cls"
    by simp
  show ?thesis
    using h1 h2 h3 C2_response_code_branches [OF h1 h2 h3, of quiet_env]
    by simp
qed

text \<open>
  C2 without the condition on \<open>on_error\<close> fails: for a status 404 on the command \<open>eval\<close>
  no message is sent.
\<close>

theorem C2_counterexample:
  "class_of (CommandInvokeError ''Command raised an exception''
         (ResponseCodeError ''404'' not_found_response)) = CommandInvokeError_cls
   \<and> class_of (original (CommandInvokeError ''Command raised an exception''
         (ResponseCodeError ''404'' not_found_response))) = ResponseCodeError_cls
   \<and> status (response (original (CommandInvokeError ''Command raised an exception''
         (ResponseCodeError ''404'' not_found_response)))) = 404
   \<and> events (on_command_error quiet_env (ctx_in (Some eval_cmd) 267624335836053506)
        (CommandInvokeError ''Command raised an exception''
          (ResponseCodeError ''404'' not_found_response)))
       = [Log Debug ''Command eval has a local error handler, ignoring.'']
   \<and> filter is_send (events (on_command_error quiet_env
        (ctx_in (Some eval_cmd) 267624335836053506)
        (CommandInvokeError ''Command raised an exception''
          (ResponseCodeError ''404'' not_found_response)))) = []"
  by (simp add: local_handler [OF eval_has_handler] events_tuple eval_str
      not_found_response_def)

text \<open>
  Claim C3. On a command without an \<open>on_error\<close> attribute: for a \<open>CommandInvokeError\<close>
  whose \<open>original\<close> is not a \<open>ResponseCodeError\<close> the handler sends one message, the
  generic text followed by \<open>str(e)\<close> in a code block, and then raises \<open>e.original\<close>,
  not \<open>e\<close>; and an error that is an instance of none of the classes tested by the chain is
  raised again as it is, with nothing sent, logged or invoked.
\<close>

theorem C3_unexpected_and_unmatched:
  assumes "\<not> hasattr_on_error (command cx)"
  shows "(class_of e = CommandInvokeError_cls
            \<and> class_of (original e) \<noteq> ResponseCodeError_cls \<longrightarrow>
          events (on_command_error en cx e) =
            [Send (''Sorry, an unexpected error occurred. Please let us know!''
               @ [CHR 0x0A, CHR 0x0A] @ ''```'' @ exc_str e @ ''```'')]
          \<and> result (on_command_error en cx e) = Raised (original e)
          \<and> ctx_after (on_command_error en cx e) = cx)
       \<and> ((\<forall>k \<in> set dispatch_classes. \<not> isinstance e k) \<longrightarrow>
          events (on_command_error en cx e) = []
          \<and> result (on_command_error en cx e) = Raised e
          \<and> ctx_after (on_command_error en cx e) = cx)"
proof (intro conjI impI)
  assume a: "class_of e = CommandInvokeError_cls
               \<and> class_of (original e) \<noteq> ResponseCodeError_cls"
  then have b: "on_command_error en cx e = on_invoke_error cx e"
    using assms by (simp add: invoke_error_branch)
  have i: "\<not> isinstance (original e) ResponseCodeError_cls"
    using a by (simp add: isinstance_ResponseCodeError)
  show "events (on_command_error en cx e) =
            [Send (''Sorry, an unexpected error occurred. Please let us know!''
               @ [CHR 0x0A, CHR 0x0A] @ ''```'' @ exc_str e @ ''```'')]"
    unfolding b using i by (simp add: on_invoke_error_def events_tuple)
  show "result (on_command_error en cx e) = Raised (original e)"
    unfolding b using i by (simp add: on_invoke_error_def result_tuple)
  show "ctx_after (on_command_error en cx e) = cx"
    unfolding b using i by (simp add: on_invoke_error_def ctx_after_tuple)
next
  assume a: "\<forall>k \<in> set dispatch_classes. \<not> isinstance e k"
  have b: "on_command_error en cx e = (cx, [], Raised e)"
    using assms a by (rule unmatched_branch)
  show "events (on_command_error en cx e) = []"
    unfolding b by (rule events_tuple)
  show "result (on_command_error en cx e) = Raised e"
    unfolding b by (rule result_tuple)
  show "ctx_after (on_command_error en cx e) = cx"
    unfolding b by (rule ctx_after_tuple)
qed

text \<open>
  The statement of C3 at a \<open>CommandInvokeError\<close> that wraps another exception, and at a
  plain \<open>CommandError\<close>.
\<close>

theorem C3_unexpected_and_unmatched_witness:
  "\<not> hasattr_on_error (command (ctx_in (Some ban_cmd) 267624335836053506))
   \<and> class_of (CommandInvokeError ''Command raised an exception: KeyError''
         (OtherException ''KeyError'')) = CommandInvokeError_cls
   \<and> class_of (original (CommandInvokeError ''Command raised an exception: KeyError''
         (OtherException ''KeyError''))) \<noteq> ResponseCodeError_cls
   \<and> events (on_command_error quiet_env (ctx_in (Some ban_cmd) 267624335836053506)
        (CommandInvokeError ''Command raised an exception: KeyError''
          (OtherException ''KeyError'')))
       = [Send (''Sorry, an unexpected error occurred. Please let us know!''
            @ [CHR 0x0A, CHR 0x0A] @ ''```Command raised an exception: KeyError```'')]
   \<and> result (on_command_error quiet_env (ctx_in (Some ban_cmd) 267624335836053506)
        (CommandInvokeError ''Command raised an exception: KeyError''
          (OtherException ''KeyError''))) = Raised (OtherException ''KeyError'')
   \<and> filter (isinstance (CommandError ''failed'')) dispatch_classes = []
   \<and> events (on_command_error quiet_env (ctx_in (Some ban_cmd) 267624335836053506)
        (CommandError ''failed'')) = []
   \<and> result (on_command_error quiet_env (ctx_in (Some ban_cmd) 267624335836053506)
        (CommandError ''failed'')) = Raised (CommandError ''failed'')"
proof -
  have h1: "\<not> hasattr_on_error (command (ctx_in (Some ban_cmd) 267624335836053506))"
    by (rule ban_no_handler)
  have h2: "class_of (CommandInvokeError ''Command raised an exception: KeyError''
         (OtherException ''KeyError'')) = CommandInvokeError_cls
     \<and> class_of (original (CommandInvokeError ''Command raised an exception: KeyError''
         (OtherException ''KeyError''))) \<noteq> ResponseCodeError_cls"
    by simp
  have h3: "\<forall>k \<in> set dispatch_classes. \<not> isinstance (CommandError ''failed'') k"
    by (simp add: dispatch_classes_def isinstance_def)
  have f: "filter (isinstance (CommandError ''failed'')) dispatch_classes = []"
    by (simp add: dispatch_classes_def isinstance_def)
  show ?thesis
    using h1 h2 h3 f
      C3_unexpected_and_unmatched [OF h1, of
        "CommandInvokeError ''Command raised an exception: KeyError''
           (OtherException ''KeyError'')" quiet_env]
      C3_unexpected_and_unmatched [OF h1, of "CommandError ''failed''" quiet_env]
    by simp
qed

text \<open>
  C3 without the condition on \<open>on_error\<close> fails: on the command \<open>eval\<close> nothing is sent
  and nothing is raised.
\<close>

theorem C3_counterexample:
  "class_of (CommandInvokeError ''Command raised an exception: KeyError''
         (OtherException ''KeyError'')) = CommandInvokeError_cls
   \<and> class_of (original (CommandInvokeError ''Command raised an exception: KeyError''
         (OtherException ''KeyError''))) \<noteq> ResponseCodeError_cls
   \<and> filter is_send (events (on_command_error quiet_env
        (ctx_in (Some eval_cmd) 267624335836053506)
        (CommandInvokeError ''Command raised an exception: KeyError''
          (OtherException ''KeyError'')))) = []
   \<and> result (on_command_error quiet_env (ctx_in (Some eval_cmd) 267624335836053506)
        (CommandInvokeError ''Command raised an exception: KeyError''
          (OtherException ''KeyError''))) = Returned PyNone"
  by (simp add: local_handler [OF eval_has_handler] events_tuple result_tuple)

text \<open>
  Claim C4. For every bot, context and error, one run of the handler sends at most one
  message, logs at most one line, raises at most one exception and invokes at most one
  command (the help command and the tag lookup both count as invocations).
\<close>

theorem C4_at_most_one_of_each:
  "length (filter is_send (events (on_command_error en cx e))) \<le> 1
   \<and> length (filter is_log (events (on_command_error en cx e))) \<le> 1
   \<and> raises (result (on_command_error en cx e)) \<le> 1
   \<and> length (filter is_invoke (events (on_command_error en cx e))) \<le> 1"
  by (intro conjI events_send_count events_log_count raises_le_one events_invoke_count)

text \<open>
  The counts of C4 at a \<open>BadArgument\<close> on the subcommand \<open>tags get\<close>: one message, no
  log line, no exception, one invocation.
\<close>

theorem C4_at_most_one_of_each_witness:
  "length (filter is_send (events (on_command_error quiet_env
      (ctx_in (Some tags_get_cmd) 267624335836053506) (BadArgument ''no such tag'')))) = 1
   \<and> length (filter is_log (events (on_command_error quiet_env
      (ctx_in (Some tags_get_cmd) 267624335836053506) (BadArgument ''no such tag'')))) = 0
   \<and> raises (result (on_command_error quiet_env
      (ctx_in (Some tags_get_cmd) 267624335836053506) (BadArgument ''no such tag''))) = 0
   \<and> length (filter is_invoke (events (on_command_error quiet_env
      (ctx_in (Some tags_get_cmd) 267624335836053506) (BadArgument ''no such tag'')))) = 1"
proof -
  have b: "on_command_error quiet_env (ctx_in (Some tags_get_cmd) 267624335836053506)
             (BadArgument ''no such tag'')
           = invoke_help quiet_env (ctx_in (Some tags_get_cmd) 267624335836053506)
               [Send (''Bad argument: '' @ exc_str (BadArgument ''no such tag'') @ [CHR 0x0A])]"
    by (rule bad_argument_branch [OF tags_get_no_handler]) simp
  have r: "raises (result (on_command_error quiet_env
      (ctx_in (Some tags_get_cmd) 267624335836053506) (BadArgument ''no such tag''))) = 0"
    unfolding b by (simp add: result_invoke_help quiet_env_simps)
  have ev: "events (on_command_error quiet_env
      (ctx_in (Some tags_get_cmd) 267624335836053506) (BadArgument ''no such tag''))
      = [Send (''Bad argument: '' @ exc_str (BadArgument ''no such tag'') @ [CHR 0x0A]),
         Invoke (fst (help_command quiet_env (ctx_in (Some tags_get_cmd) 267624335836053506)))
           (snd (help_command quiet_env (ctx_in (Some tags_get_cmd) 267624335836053506))) []]"
    unfolding b by (simp add: events_invoke_help)
  show ?thesis
    using r C4_at_most_one_of_each [of quiet_env
        "ctx_in (Some tags_get_cmd) 267624335836053506" "BadArgument ''no such tag''"]
    by (simp add: ev)
qed

text \<open>
  Claim C5. For every error, when the command of the context has an \<open>on_error\<close>
  attribute, the handler does nothing but emit the debug line of line 46: it sends no
  message, invokes no command, raises nothing (it returns \<open>None\<close>) and leaves the context
  as it was.
\<close>

theorem C5_local_handler_defers:
  assumes "hasattr_on_error (command cx)"
  shows "filter is_send (events (on_command_error en cx e)) = []
       \<and> filter is_invoke (events (on_command_error en cx e)) = []
       \<and> result (on_command_error en cx e) = Returned PyNone
       \<and> ctx_after (on_command_error en cx e) = cx
       \<and> events (on_command_error en cx e) =
           [Log Debug (''Command '' @ str_command (command cx)
              @ '' has a local error handler, ignoring.'')]"
  using assms by (simp add: local_handler events_tuple result_tuple ctx_after_tuple)

text \<open>
  The statement of C5 at the command \<open>eval\<close> and an error of class \<open>NoPrivateMessage\<close>,
  for which the dispatch would otherwise send a message.
\<close>

theorem C5_local_handler_defers_witness:
  "hasattr_on_error (command (ctx_in (Some eval_cmd) 267624335836053506))
   \<and> filter is_send (events (on_command_error quiet_env
        (ctx_in (Some eval_cmd) 267624335836053506) (NoPrivateMessage ''guild only''))) = []
   \<and> filter is_invoke (events (on_command_error quiet_env
        (ctx_in (Some eval_cmd) 267624335836053506) (NoPrivateMessage ''guild only''))) = []
   \<and> result (on_command_error quiet_env
        (ctx_in (Some eval_cmd) 267624335836053506) (NoPrivateMessage ''guild only''))
       = Returned PyNone
   \<and> ctx_after (on_command_error quiet_env
        (ctx_in (Some eval_cmd) 267624335836053506) (NoPrivateMessage ''guild only''))
       = ctx_in (Some eval_cmd) 267624335836053506
   \<and> events (on_command_error quiet_env
        (ctx_in (Some eval_cmd) 267624335836053506) (NoPrivateMessage ''guild only''))
       = [Log Debug ''Command eval has a local error handler, ignoring.'']"
proof -
  have h: "hasattr_on_error (command (ctx_in (Some eval_cmd) 267624335836053506))"
    by (rule eval_has_handler)
  show ?thesis
    using h C5_local_handler_defers [OF h, of quiet_env "NoPrivateMessage ''guild only''"]
    by (simp add: eval_str)
qed

text \<open>
  C5 read as "no observable action at all" fails: the handler logs one line.
\<close>

theorem C5_counterexample:
  "hasattr_on_error (command (ctx_in (Some eval_cmd) 267624335836053506))
   \<and> filter is_log (events (on_command_error quiet_env
        (ctx_in (Some eval_cmd) 267624335836053506) (UserInputError ''bad input'')))
       = [Log Debug ''Command eval has a local error handler, ignoring.'']"
  by (simp add: eval_has_handler local_handler [OF eval_has_handler] events_tuple eval_str)

text \<open>
  Claim C6. For an error of class \<open>BadArgument\<close> on a command without an \<open>on_error\<close>
  attribute, the handler sends \<open>Bad argument: \<close> followed by \<open>str(e)\<close> and a newline, and
  then invokes the help command with the names of the parent and of the command when the
  command has a parent, with the name of the command alone when it has none, and with no
  name when the context has no command. \<open>BadArgument\<close> is also an instance of
  \<open>UserInputError\<close>, whose branch comes later in the chain and is not taken.
\<close>

theorem C6_bad_argument:
  assumes "\<not> hasattr_on_error (command cx)"
    and "class_of e = BadArgument_cls"
  shows "isinstance e UserInputError_cls
       \<and> events (on_command_error en cx e) =
           [Send (''Bad argument: '' @ exc_str e @ [CHR 0x0A]),
            Invoke (get_command en ''help'')
              (case command cx of
                 None \<Rightarrow> []
               | Some c \<Rightarrow> (case parent c of None \<Rightarrow> [name c] | Some p \<Rightarrow> [name p, name c]))
              []]"
  using assms
  by (simp add: bad_argument_branch events_invoke_help help_command_fst help_command_snd
      isinstance_def)

text \<open>
  The statement of C6 at the subcommand \<open>get\<close> of the group \<open>tags\<close>.
\<close>

theorem C6_bad_argument_witness:
  "\<not> hasattr_on_error (command (ctx_in (Some tags_get_cmd) 267624335836053506))
   \<and> class_of (BadArgument ''no such tag'') = BadArgument_cls
   \<and> isinstance (BadArgument ''no such tag'') UserInputError_cls
   \<and> events (on_command_error quiet_env (ctx_in (Some tags_get_cmd) 267624335836053506)
        (BadArgument ''no such tag''))
       = [Send (''Bad argument: no such tag'' @ [CHR 0x0A]),
          Invoke (Some help_cmd) [''tags'', ''get''] []]"
proof -
  have h1: "\<not> hasattr_on_error (command (ctx_in (Some tags_get_cmd) 267624335836053506))"
    by (rule tags_get_no_handler)
  have h2: "class_of (BadArgument ''no such tag'') = BadArgument_cls"
    by simp
  have a: "(case command (ctx_in (Some tags_get_cmd) 267624335836053506) of
                 None \<Rightarrow> []
               | Some c \<Rightarrow> (case parent c of None \<Rightarrow> [name c] | Some p \<Rightarrow> [name p, name c]))
           = [''tags'', ''get'']"
    by (simp add: ctx_in_command tags_get_cmd_def tags_cmd_def)
  show ?thesis
    using h1 h2 C6_bad_argument [OF h1 h2, of quiet_env]
    by (simp add: a quiet_env_simps)
qed

text \<open>
  C6 without the condition on \<open>on_error\<close> fails: on the command \<open>eval\<close> no message is
  sent and the help command is not invoked.
\<close>

theorem C6_counterexample:
  "class_of (BadArgument ''no such tag'') = BadArgument_cls
   \<and> filter is_send (events (on_command_error quiet_env
        (ctx_in (Some eval_cmd) 267624335836053506) (BadArgument ''no such tag''))) = []
   \<and> filter is_invoke (events (on_command_error quiet_env
        (ctx_in (Some eval_cmd) 267624335836053506) (BadArgument ''no such tag''))) = []"
  by (simp add: local_handler [OF eval_has_handler] events_tuple)

text \<open>
  Claim C7. For an error that is an instance of \<open>MissingPermissions\<close>, \<open>CheckFailure\<close>,
  \<open>CommandOnCooldown\<close> or \<open>DisabledCommand\<close> (the tests of lines 68 and 70) and that the
  branches of lines 63 and 65 do not take first, that is, an instance of neither
  \<open>NoPrivateMessage\<close> nor \<open>BotMissingPermissions\<close>, the handler emits exactly one log
  line, at debug level, sends no message, invokes nothing and returns without raising. The
  line is the one of line 46 when the command has an \<open>on_error\<close> attribute, the one of line
  69 for an instance of \<open>MissingPermissions\<close>, and the one of line 71 otherwise; a
  subclass such as \<open>NotOwner\<close> reaches line 71 as an instance of \<open>CheckFailure\<close>.
\<close>

theorem C7_silent_debug_log:
  assumes "isinstance e MissingPermissions_cls \<or> isinstance e CheckFailure_cls
           \<or> isinstance e CommandOnCooldown_cls \<or> isinstance e DisabledCommand_cls"
    and "\<not> isinstance e NoPrivateMessage_cls"
    and "\<not> isinstance e BotMissingPermissions_cls"
  shows "events (on_command_error en cx e) =
           [Log Debug
              (if hasattr_on_error (command cx) then
                 ''Command '' @ str_command (command cx)
                   @ '' has a local error handler, ignoring.''
               else if isinstance e MissingPermissions_cls then
                 author_str cx @ '' is missing permissions to invoke command ''
                   @ str_command (command cx) @ '': '' @ str_list (missing_perms e)
               else
                 ''Command '' @ str_command (command cx) @ '' invoked by ''
                   @ author_str cx @ '' with error '' @ class_name e @ '': '' @ exc_str e)]
       \<and> filter is_send (events (on_command_error en cx e)) = []
       \<and> filter is_invoke (events (on_command_error en cx e)) = []
       \<and> result (on_command_error en cx e) = Returned PyNone"
proof (cases "hasattr_on_error (command cx)")
  case True
  then show ?thesis
    by (simp add: local_handler events_tuple result_tuple)
next
  case False
  show ?thesis
  proof (cases "isinstance e MissingPermissions_cls")
    case True
    then have "class_of e = MissingPermissions_cls"
      by (simp add: isinstance_MissingPermissions)
    with False True show ?thesis
      by (simp add: missing_permissions_branch events_tuple result_tuple)
  next
    case other: False
    with assms(1) have "isinstance e CheckFailure_cls \<or> isinstance e CommandOnCooldown_cls
           \<or> isinstance e DisabledCommand_cls"
      by blast
    from check_failure_instance_branch [OF False this assms(2) assms(3) other]
    show ?thesis
      using False other by (simp add: events_tuple result_tuple)
  qed
qed

text \<open>
  The statement of C7 at a \<open>NotOwner\<close>, a subclass of \<open>CheckFailure\<close>, on the command
  \<open>ban\<close>.
\<close>

theorem C7_silent_debug_log_witness:
  "isinstance (NotOwner ''You do not own this bot.'') CheckFailure_cls
   \<and> \<not> isinstance (NotOwner ''You do not own this bot.'') NoPrivateMessage_cls
   \<and> \<not> isinstance (NotOwner ''You do not own this bot.'') BotMissingPermissions_cls
   \<and> events (on_command_error quiet_env (ctx_in (Some ban_cmd) 267624335836053506)
        (NotOwner ''You do not own this bot.''))
       = [Log Debug (''Command ban invoked by lemon#0001 with error NotOwner: ''
            @ ''You do not own this bot.'')]
   \<and> filter is_send (events (on_command_error quiet_env
        (ctx_in (Some ban_cmd) 267624335836053506)
        (NotOwner ''You do not own this bot.''))) = []
   \<and> result (on_command_error quiet_env (ctx_in (Some ban_cmd) 267624335836053506)
        (NotOwner ''You do not own this bot.'')) = Returned PyNone"
proof -
  have h1: "isinstance (NotOwner ''You do not own this bot.'') MissingPermissions_cls
      \<or> isinstance (NotOwner ''You do not own this bot.'') CheckFailure_cls
      \<or> isinstance (NotOwner ''You do not own this bot.'') CommandOnCooldown_cls
      \<or> isinstance (NotOwner ''You do not own this bot.'') DisabledCommand_cls"
    by (simp add: isinstance_def)
  have h2: "\<not> isinstance (NotOwner ''You do not own this bot.'') NoPrivateMessage_cls"
    by (simp add: isinstance_def)
  have h3: "\<not> isinstance (NotOwner ''You do not own this bot.'') BotMissingPermissions_cls"
    by (simp add: isinstance_def)
  have c: "isinstance (NotOwner ''You do not own this bot.'') CheckFailure_cls"
    by (simp add: isinstance_def)
  have m: "isinstance (NotOwner ''You do not own this bot.'') MissingPermissions_cls = False"
    by (simp add: isinstance_def)
  have n: "hasattr_on_error (command (ctx_in (Some ban_cmd) 267624335836053506)) = False"
    using ban_no_handler by simp
  show ?thesis
    using h2 h3 c C7_silent_debug_log [OF h1 h2 h3, of quiet_env
        "ctx_in (Some ban_cmd) 267624335836053506"]
    by (simp add: n m ban_str ctx_in_author)
qed

text \<open>
  C7 without the exclusion fails: \<open>NoPrivateMessage\<close> is an instance of \<open>CheckFailure\<close>,
  but line 63 comes before line 70, so on the command \<open>ban\<close> the handler sends a message
  and logs nothing.
\<close>

theorem C7_counterexample:
  "isinstance (NoPrivateMessage ''This command cannot be used in private messages.'')
     CheckFailure_cls
   \<and> events (on_command_error quiet_env (ctx_in (Some ban_cmd) 267624335836053506)
        (NoPrivateMessage ''This command cannot be used in private messages.''))
       = [Send (''Sorry, this command can'' @ [CHR 0x27]
            @ ''t be used in a private message!'')]"
proof -
  have i: "isinstance (NoPrivateMessage ''This command cannot be used in private messages.'')
     CheckFailure_cls"
    by (simp add: isinstance_def)
  have b: "on_command_error quiet_env (ctx_in (Some ban_cmd) 267624335836053506)
        (NoPrivateMessage ''This command cannot be used in private messages.'')
      = (ctx_in (Some ban_cmd) 267624335836053506,
         [Send (''Sorry, this command can'' @ [CHR 0x27]
            @ ''t be used in a private message!'')], Returned PyNone)"
    using ban_no_handler [of 267624335836053506]
    by (simp add: on_command_error_def isinstance_def)
  show ?thesis
    using i by (simp add: b events_tuple)
qed

text \<open>
  Claim C8. For an error of class \<open>BotMissingPermissions\<close> on a command without an
  \<open>on_error\<close> attribute, the handler sends the fixed apology, then logs one line at warning
  level that ends with the list \<open>e.missing_perms\<close>, and returns without raising.
\<close>

theorem C8_bot_missing_permissions:
  assumes "\<not> hasattr_on_error (command cx)"
    and "class_of e = BotMissingPermissions_cls"
  shows "events (on_command_error en cx e) =
           [Send (''Sorry, it looks like I don'' @ [CHR 0x27]
              @ ''t have the permissions I need to do that.''),
            Log Warning (''The bot is missing permissions to execute command ''
              @ str_command (command cx) @ '': '' @ str_list (missing_perms e))]
       \<and> result (on_command_error en cx e) = Returned PyNone"
  using assms by (simp add: bot_missing_permissions_branch events_tuple result_tuple)

text \<open>
  The statement of C8 at the command \<open>ban\<close> with the missing permission \<open>ban_members\<close>.
\<close>

theorem C8_bot_missing_permissions_witness:
  "\<not> hasattr_on_error (command (ctx_in (Some ban_cmd) 267624335836053506))
   \<and> class_of (BotMissingPermissions ''Bot requires Ban Members'' [''ban_members''])
       = BotMissingPermissions_cls
   \<and> events (on_command_error quiet_env (ctx_in (Some ban_cmd) 267624335836053506)
        (BotMissingPermissions ''Bot requires Ban Members'' [''ban_members'']))
       = [Send (''Sorry, it looks like I don'' @ [CHR 0x27]
              @ ''t have the permissions I need to do that.''),
          Log Warning (''The bot is missing permissions to execute command ban: [''
              @ [CHR 0x27] @ ''ban_members'' @ [CHR 0x27] @ '']'')]
   \<and> result (on_command_error quiet_env (ctx_in (Some ban_cmd) 267624335836053506)
        (BotMissingPermissions ''Bot requires Ban Members'' [''ban_members'']))
       = Returned PyNone"
proof -
  have h1: "\<not> hasattr_on_error (command (ctx_in (Some ban_cmd) 267624335836053506))"
    by (rule ban_no_handler)
  have h2: "class_of (BotMissingPermissions ''Bot requires Ban Members'' [''ban_members''])
       = BotMissingPermissions_cls"
    by simp
  show ?thesis
    using h1 h2 C8_bot_missing_permissions [OF h1 h2, of quiet_env]
    by (simp add: ban_str str_list_def)
qed

text \<open>
  C8 without the condition on \<open>on_error\<close> fails: on the command \<open>eval\<close> the only event is
  the debug line of line 46.
\<close>

theorem C8_counterexample:
  "class_of (BotMissingPermissions ''Bot requires Ban Members'' [''ban_members''])
       = BotMissingPermissions_cls
   \<and> events (on_command_error quiet_env (ctx_in (Some eval_cmd) 267624335836053506)
        (BotMissingPermissions ''Bot requires Ban Members'' [''ban_members'']))
       = [Log Debug ''Command eval has a local error handler, ignoring.'']"
  by (simp add: local_handler [OF eval_has_handler] events_tuple eval_str)

text \<open>
  Claim C9. For an error of class \<open>CommandNotFound\<close> on a context that has no attribute
  \<open>invoked_from_error_handler\<close> and whose channel is the verification channel, on a
  command without an \<open>on_error\<close> attribute (or no command), the handler does nothing:
  no message, no log line, no invocation, the context unchanged, and it returns instead of
  raising the error again.
\<close>

theorem C9_verification_channel:
  assumes "\<not> hasattr_on_error (command cx)"
    and "class_of e = CommandNotFound_cls"
    and "invoked_from_error_handler cx = None"
    and "channel_id cx = verification en"
  shows "events (on_command_error en cx e) = []
       \<and> result (on_command_error en cx e) = Returned PyNone
       \<and> ctx_after (on_command_error en cx e) = cx"
  using assms by (simp add: verification_branch events_tuple result_tuple ctx_after_tuple)

text \<open>
  The statement of C9 at a context without a command in the verification channel.
\<close>

theorem C9_verification_channel_witness:
  "\<not> hasattr_on_error (command (ctx_in None 352442727016693763))
   \<and> class_of (CommandNotFound ''accept'') = CommandNotFound_cls
   \<and> invoked_from_error_handler (ctx_in None 352442727016693763) = None
   \<and> channel_id (ctx_in None 352442727016693763) = verification quiet_env
   \<and> events (on_command_error quiet_env (ctx_in None 352442727016693763)
        (CommandNotFound ''accept'')) = []
   \<and> result (on_command_error quiet_env (ctx_in None 352442727016693763)
        (CommandNotFound ''accept'')) = Returned PyNone
   \<and> ctx_after (on_command_error quiet_env (ctx_in None 352442727016693763)
        (CommandNotFound ''accept'')) = ctx_in None 352442727016693763"
proof -
  have h1: "\<not> hasattr_on_error (command (ctx_in None 352442727016693763))"
    by (rule none_no_handler)
  have h2: "class_of (CommandNotFound ''accept'') = CommandNotFound_cls"
    by simp
  have h3: "invoked_from_error_handler (ctx_in None 352442727016693763) = None"
    by (rule ctx_in_unmarked)
  have h4: "channel_id (ctx_in None 352442727016693763) = verification quiet_env"
    by (simp add: ctx_in_channel quiet_env_simps)
  show ?thesis
    using h1 h2 h3 h4 C9_verification_channel [OF h1 h2 h3 h4]
    by simp
qed

text \<open>
  C9 without the condition on \<open>on_error\<close> fails: on the command \<open>eval\<close> a line is logged.
\<close>

theorem C9_counterexample:
  "class_of (CommandNotFound ''accept'') = CommandNotFound_cls
   \<and> invoked_from_error_handler (ctx_in (Some eval_cmd) 352442727016693763) = None
   \<and> channel_id (ctx_in (Some eval_cmd) 352442727016693763) = verification quiet_env
   \<and> filter is_log (events (on_command_error quiet_env
        (ctx_in (Some eval_cmd) 352442727016693763) (CommandNotFound ''accept'')))
       = [Log Debug ''Command eval has a local error handler, ignoring.'']"
  by (simp add: local_handler [OF eval_has_handler] events_tuple eval_str
      ctx_in_unmarked ctx_in_channel quiet_env_simps)

text \<open>
  Claim C10. For a \<open>CommandInvokeError\<close> whose \<open>original\<close> is a \<open>ResponseCodeError\<close>
  with a status other than 404, 400 and the range from 500 up to but excluding 600, every
  message the handler sends is the text with \<open>str(response.code)\<close> between the backquotes
  (and on a command without an \<open>on_error\<close> attribute it sends exactly that one message).
  The branch was chosen by \<open>response.status\<close>, another attribute, so the number shown is
  not determined by the status.
\<close>

theorem C10_code_attribute_shown:
  assumes "class_of e = CommandInvokeError_cls"
    and "class_of (original e) = ResponseCodeError_cls"
    and "status (response (original e)) \<noteq> 404"
    and "status (response (original e)) \<noteq> 400"
    and "\<not> (500 \<le> status (response (original e)) \<and> status (response (original e)) < 600)"
  shows "(\<forall>m. Send m \<in> set (events (on_command_error en cx e)) \<longrightarrow>
            m = ''Got an unexpected status code from the API (`''
                  @ str_int (code (response (original e))) @ ''`).'')
       \<and> (\<not> hasattr_on_error (command cx) \<longrightarrow>
            events (on_command_error en cx e) =
              [Send (''Got an unexpected status code from the API (`''
                 @ str_int (code (response (original e))) @ ''`).'')])"
proof (cases "hasattr_on_error (command cx)")
  case True
  then show ?thesis
    by (simp add: local_handler events_tuple)
next
  case False
  have b: "on_command_error en cx e = on_invoke_error cx e"
    using False assms(1) by (rule invoke_error_branch)
  have i: "isinstance (original e) ResponseCodeError_cls"
    using assms(2) by (simp add: isinstance_ResponseCodeError)
  have "events (on_invoke_error cx e) =
              [Send (''Got an unexpected status code from the API (`''
                 @ str_int (code (response (original e))) @ ''`).'')]"
    using i assms(3,4,5) by (simp add: on_invoke_error_def events_tuple)
  then show ?thesis
    unfolding b by simp
qed

text \<open>
  The statement of C10 at a response with status 418 and code 200: the user is shown 200,
  not 418.
\<close>

theorem C10_code_attribute_shown_witness:
  "class_of (CommandInvokeError ''Command raised an exception''
      (ResponseCodeError ''418'' \<lparr>status = 418, code = 200, json_repr = ''{}''\<rparr>))
     = CommandInvokeError_cls
   \<and> class_of (original (CommandInvokeError ''Command raised an exception''
      (ResponseCodeError ''418'' \<lparr>status = 418, code = 200, json_repr = ''{}''\<rparr>)))
     = ResponseCodeError_cls
   \<and> status (response (original (CommandInvokeError ''Command raised an exception''
      (ResponseCodeError ''418'' \<lparr>status = 418, code = 200, json_repr = ''{}''\<rparr>)))) = 418
   \<and> \<not> hasattr_on_error (command (ctx_in (Some ban_cmd) 267624335836053506))
   \<and> events (on_command_error quiet_env (ctx_in (Some ban_cmd) 267624335836053506)
        (CommandInvokeError ''Command raised an exception''
          (ResponseCodeError ''418'' \<lparr>status = 418, code = 200, json_repr = ''{}''\<rparr>)))
       = [Send ''Got an unexpected status code from the API (`200`).'']
   \<and> events (on_command_error quiet_env (ctx_in (Some ban_cmd) 267624335836053506)
        (CommandInvokeError ''Command raised an exception''
          (ResponseCodeError ''418'' \<lparr>status = 418, code = 200, json_repr = ''{}''\<rparr>)))
       \<noteq> [Send ''Got an unexpected status code from the API (`418`).'']"
proof -
  have h1: "class_of (CommandInvokeError ''Command raised an exception''
      (ResponseCodeError ''418'' \<lparr>status = 418, code = 200, json_repr = ''{}''\<rparr>))
     = CommandInvokeError_cls"
    by simp
  have h2: "class_of (original (CommandInvokeError ''Command raised an exception''
      (ResponseCodeError ''418'' \<lparr>status = 418, code = 200, json_repr = ''{}''\<rparr>)))
     = ResponseCodeError_cls"
    by simp
  have h3: "status (response (original (CommandInvokeError ''Command raised an exception''
      (ResponseCodeError ''418'' \<lparr>status = 418, code = 200, json_repr = ''{}''\<rparr>)))) \<noteq> 404"
    by simp
  have h4: "status (response (original (CommandInvokeError ''Command raised an exception''
      (ResponseCodeError ''418'' \<lparr>status = 418, code = 200, json_repr = ''{}''\<rparr>)))) \<noteq> 400"
    by simp
  have h5: "\<not> (500 \<le> status (response (original (CommandInvokeError
      ''Command raised an exception''
      (ResponseCodeError ''418'' \<lparr>status = 418, code = 200, json_repr = ''{}''\<rparr>))))
      \<and> status (response (original (CommandInvokeError ''Command raised an exception''
      (ResponseCodeError ''418'' \<lparr>status = 418, code = 200, json_repr = ''{}''\<rparr>)))) < 600)"
    by simp
  have n: "hasattr_on_error (command (ctx_in (Some ban_cmd) 267624335836053506)) = False"
    using ban_no_handler by simp
  have s: "str_int 200 = ''200''"
    by (simp add: str_int_def digit_chr_def)
  show ?thesis
    using C10_code_attribute_shown [OF h1 h2 h3 h4 h5, of quiet_env
        "ctx_in (Some ban_cmd) 267624335836053506", THEN conjunct2]
    by (simp add: n s)
qed

end
